theory Spec2Isabelle
  imports Complex_Main "HOL-Library.Sublist"
begin

section \<open>JavaScript values used by the analyzer\<close>

text \<open>
  Numbers. A JavaScript number is an IEEE double. The analyzer only divides, multiplies,
  adds and compares, and what its results depend on is which of the special values a
  division produces: \<open>0/0\<close> is not-a-number, \<open>x/0\<close> with \<open>x\<close> nonzero is an infinity.
  The model keeps these special values and takes the finite values as exact rationals
  (rounding of finite results and the sign of zero are left out; all divisors of the
  program are lengths and word counts, which are never negative zero).
\<close>

datatype jsnumber = Fin rat | PosInf | NegInf | NaN

fun js_add :: "jsnumber \<Rightarrow> jsnumber \<Rightarrow> jsnumber" where
  "js_add NaN _ = NaN"
| "js_add _ NaN = NaN"
| "js_add (Fin a) (Fin b) = Fin (a + b)"
| "js_add PosInf NegInf = NaN"
| "js_add NegInf PosInf = NaN"
| "js_add PosInf _ = PosInf"
| "js_add _ PosInf = PosInf"
| "js_add NegInf _ = NegInf"
| "js_add _ NegInf = NegInf"

fun js_neg :: "jsnumber \<Rightarrow> jsnumber" where
  "js_neg (Fin a) = Fin (- a)"
| "js_neg PosInf = NegInf"
| "js_neg NegInf = PosInf"
| "js_neg NaN = NaN"

fun js_mul :: "jsnumber \<Rightarrow> jsnumber \<Rightarrow> jsnumber" where
  "js_mul NaN _ = NaN"
| "js_mul _ NaN = NaN"
| "js_mul (Fin a) (Fin b) = Fin (a * b)"
| "js_mul (Fin a) x = (if a = 0 then NaN else if 0 < a then x else js_neg x)"
| "js_mul x (Fin b) = (if b = 0 then NaN else if 0 < b then x else js_neg x)"
| "js_mul PosInf x = x"
| "js_mul NegInf x = js_neg x"

fun js_div :: "jsnumber \<Rightarrow> jsnumber \<Rightarrow> jsnumber" where
  "js_div NaN _ = NaN"
| "js_div _ NaN = NaN"
| "js_div (Fin a) (Fin b) =
     (if b = 0 then (if a = 0 then NaN else if 0 < a then PosInf else NegInf)
      else Fin (a / b))"
| "js_div (Fin a) _ = Fin 0"
| "js_div x (Fin b) = (if 0 \<le> b then x else js_neg x)"
| "js_div _ _ = NaN"

text \<open>The comparisons \<open><\<close> and \<open>>\<close>: false as soon as one side is not-a-number.\<close>

fun js_lt :: "jsnumber \<Rightarrow> jsnumber \<Rightarrow> bool" where
  "js_lt NaN _ = False"
| "js_lt _ NaN = False"
| "js_lt (Fin a) (Fin b) = (a < b)"
| "js_lt NegInf NegInf = False"
| "js_lt NegInf _ = True"
| "js_lt _ NegInf = False"
| "js_lt PosInf _ = False"
| "js_lt _ PosInf = True"

definition js_gt :: "jsnumber \<Rightarrow> jsnumber \<Rightarrow> bool" where
  "js_gt a b = js_lt b a"

text \<open>\<open>Math.min\<close> of two numbers: not-a-number if either argument is.\<close>

fun js_min :: "jsnumber \<Rightarrow> jsnumber \<Rightarrow> jsnumber" where
  "js_min NaN _ = NaN"
| "js_min _ NaN = NaN"
| "js_min a b = (if js_lt b a then b else a)"

text \<open>A number in a condition: zero and not-a-number are falsy.\<close>

fun js_truthy :: "jsnumber \<Rightarrow> bool" where
  "js_truthy (Fin a) = (a \<noteq> 0)"
| "js_truthy NaN = False"
| "js_truthy _ = True"

definition of_length :: "nat \<Rightarrow> jsnumber" where
  "of_length n = Fin (of_nat n)"

text \<open>
  Strings are lists of characters; a character stands for one UTF-16 code unit, which is
  what \<open>length\<close> and \<open>split\<close> count in JavaScript.

  \<open>String.prototype.split\<close> with a string separator. With a non-empty separator the text is
  scanned from the left, cutting at each match and resuming after it, so matches do not
  overlap; the piece after the last match is always emitted. With the empty separator the
  result is the list of the one-character pieces, and the empty list for the empty text.
  A \<open>null\<close> separator is first converted to the string \<open>null\<close>.
\<close>

fun split_from :: "string \<Rightarrow> string \<Rightarrow> string \<Rightarrow> string list" where
  "split_from sep piece [] = [piece]"
| "split_from [] piece (c # cs) = split_from [] (piece @ [c]) cs"
| "split_from (s # sep) piece (c # cs) =
     (if prefix (s # sep) (c # cs)
      then piece # split_from (s # sep) [] (drop (length sep) cs)
      else split_from (s # sep) (piece @ [c]) cs)"

definition js_split :: "string \<Rightarrow> string \<Rightarrow> string list" where
  "js_split S R = (if R = [] then map (\<lambda>c. [c]) S else split_from R [] S)"

definition to_separator :: "string option \<Rightarrow> string" where
  "to_separator k = (case k of None \<Rightarrow> ''null'' | Some s \<Rightarrow> s)"

text \<open>
  \<open>toLowerCase\<close>, on the letters \<open>A\<close> to \<open>Z\<close> (codes 65 to 90): the lower-case letter
  is the same code with bit 5 set. Other characters are left as they are; the result is
  only compared with \<open>h1\<close>, \<open>h2\<close> and \<open>h3\<close>, and no character outside \<open>A\<close> to \<open>Z\<close>
  has one of their characters as its lower case.
\<close>

definition lower_char :: "char \<Rightarrow> char" where
  "lower_char c =
     (let n = (of_char c :: nat)
      in if 65 \<le> n \<and> n \<le> 90
         then (case c of Char b0 b1 b2 b3 b4 b5 b6 b7 \<Rightarrow> Char b0 b1 b2 b3 b4 True b6 b7)
         else c)"

definition toLowerCase :: "string \<Rightarrow> string" where
  "toLowerCase s = map lower_char s"

text \<open>A string-or-null in a condition: \<open>null\<close> and the empty string are falsy.\<close>

definition truthy :: "string option \<Rightarrow> bool" where
  "truthy k = (case k of None \<Rightarrow> False | Some s \<Rightarrow> s \<noteq> [])"

section \<open>Data model\<close>

text \<open>
  \<open>ContentJson\<close>, \<open>Heading\<close> and \<open>KeywordDensity\<close> are declared in \<open>interfaces.ts\<close> and
  \<open>HtmlAnalyzer\<close> in \<open>html-analyzer.ts\<close>; the records below hold the fields that
  \<open>seo-analyzer.ts\<close> reads, with the types of the specification's data model (the primary
  keyword may be \<open>null\<close>). The analyzer is a collaborator: its word count, body text,
  headings and link lists are parameters of everything that follows. The field \<open>text\<close> of
  a heading is called \<open>heading_text\<close> here, and the field \<open>keyword\<close> of a density
  \<open>kd_keyword\<close>.
\<close>

record ContentJson =
  title :: string
  metaDescription :: string
  keyword :: "string option"
  subKeywords :: "string list"

record Heading =
  tag :: string
  heading_text :: string

record Links =
  unique :: "string list"
  duplicate :: "string list"

record HtmlAnalyzer =
  bodyText :: string
  getWordCount :: "string option \<Rightarrow> nat"
  getAllHeadingTags :: "Heading list"
  getInternalLinks :: Links
  getOutboundLinks :: Links

record KeywordDensity =
  kd_keyword :: "string option"
  density :: jsnumber
  position :: "int option"

text \<open>
  A message is one of the template strings of the source together with the values
  interpolated into it, in the order of the source. Numbers printed with \<open>toFixed(2)\<close>
  are carried unrounded. The flag of the two low-density messages is true where the
  source inserts the stronger of its two wordings. The templates are grouped by the
  method that pushes them.
\<close>

datatype keyword_message =
    KeywordPresent string
  | KeywordStuffing
  | KeywordDensityTooLow jsnumber
  | KeywordDensityTooHigh jsnumber
  | KeywordDensityGood jsnumber
  | MissingKeyword

datatype sub_keyword_message =
    SubKeywordsPresent "string list"
  | SubKeywordDensityTooHigh "string option" jsnumber
  | SubKeywordDensityLow "string option" bool jsnumber
  | SubKeywordDensityGood "string option" jsnumber
  | MissingSubKeywords

datatype title_message =
    TitleTooLong
  | TitleTooShort
  | TitleLengthGood nat
  | KeywordInTitleDensity jsnumber
  | NoKeywordInTitle
  | SubKeywordsInTitle nat
  | NoSubKeywordsInTitle
  | MissingTitle

datatype link_message =
    InternalLinksInsufficient nat
  | InternalLinksGood nat
  | ExternalLinksInsufficient nat
  | DuplicateInternalLinks nat
  | NoDuplicateInternalLinks
  | DuplicateExternalLinks nat
  | NoDuplicateExternalLinks

datatype meta_message =
    MetaTooLong nat
  | MetaTooShort nat
  | MetaLengthGood nat
  | MetaDensityTooHigh jsnumber
  | MetaDensityTooLow jsnumber
  | MetaDensityGood jsnumber
  | MetaNotStartingWithKeyword string
  | MetaStartsWithKeyword string
  | SubKeywordMetaTooHigh "string option" jsnumber
  | SubKeywordMetaLow "string option" bool jsnumber
  | SubKeywordMetaGood "string option" jsnumber
  | MissingMeta

datatype heading_message =
    MissingHeadings
  | HeadingCount nat
  | MissingH1
  | MultipleH1
  | GoodH1
  | MissingH2
  | GoodH2
  | MissingH3
  | GoodH3

datatype keyword_in_heading_message =
    KeywordInHeading "string option" string string
  | KeywordNotInHeading "string option" string string

datatype sub_keyword_in_heading_message =
    SubKeywordInHeading string string string
  | SubKeywordNotInHeading string string string

datatype message =
    ForKeyword keyword_message
  | ForSubKeywords sub_keyword_message
  | ForTitle title_message
  | ForLinks link_message
  | ForMetaDescription meta_message
  | ForKeywordInHeadings keyword_in_heading_message
  | ForSubKeywordsInHeadings sub_keyword_in_heading_message
  | ForHeadings heading_message

record message_set =
  warnings :: "message list"
  minorWarnings :: "message list"
  goodPoints :: "message list"

record SeoAnalyzer =
  content :: ContentJson
  htmlAnalyzer :: HtmlAnalyzer
  keywordDensity :: jsnumber
  strictMode :: bool
  headings :: "Heading list"
  messages :: message_set

definition MINIMUM_KEYWORD_DENSITY :: jsnumber where
  "MINIMUM_KEYWORD_DENSITY = Fin (46 / 100)"

definition MAXIMUM_KEYWORD_DENSITY :: jsnumber where
  "MAXIMUM_KEYWORD_DENSITY = Fin (11 / 10)"

definition MAXIMUM_SUB_KEYWORD_DENSITY :: jsnumber where
  "MAXIMUM_SUB_KEYWORD_DENSITY = Fin (9 / 10)"

definition MINIMUM_SUB_KEYWORD_DENSITY :: jsnumber where
  "MINIMUM_SUB_KEYWORD_DENSITY = Fin (12 / 100)"

definition EXTREME_LOW_SUB_KEYWORD_DENSITY :: jsnumber where
  "EXTREME_LOW_SUB_KEYWORD_DENSITY = Fin (9 / 100)"

definition MAXIMUM_META_DESCRIPTION_LENGTH :: nat where
  "MAXIMUM_META_DESCRIPTION_LENGTH = 160"

definition MAXIMUM_META_DESCRIPTION_DENSITY :: jsnumber where
  "MAXIMUM_META_DESCRIPTION_DENSITY = Fin 5"

definition MINIMUM_META_DESCRIPTION_DENSITY :: jsnumber where
  "MINIMUM_META_DESCRIPTION_DENSITY = Fin 2"

definition MAXIMUM_TITLE_LENGTH :: nat where
  "MAXIMUM_TITLE_LENGTH = 70"

definition MINIMUM_TITLE_LENGTH :: nat where
  "MINIMUM_TITLE_LENGTH = 40"

definition MAXIMUM_SUB_KEYWORD_IN_META_DESCRIPTION_DENSITY :: jsnumber where
  "MAXIMUM_SUB_KEYWORD_IN_META_DESCRIPTION_DENSITY = Fin 5"

definition MINIMUM_SUB_KEYWORD_IN_META_DESCRIPTION_DENSITY :: jsnumber where
  "MINIMUM_SUB_KEYWORD_IN_META_DESCRIPTION_DENSITY = Fin 2"

section \<open>Measurements\<close>

text \<open>
  The methods of this section read \<open>this.content\<close> and \<open>this.htmlAnalyzer\<close> only, and take
  the two as arguments. An optional parameter is an \<open>option\<close>, \<open>None\<close> where the caller
  passes \<open>null\<close> or nothing.
\<close>

definition countOccurrencesInString ::
  "ContentJson \<Rightarrow> HtmlAnalyzer \<Rightarrow> string option \<Rightarrow> string option \<Rightarrow> int" where
  "countOccurrencesInString c a kw stringContent =
     (let kw' = (case kw of None \<Rightarrow> keyword c | Some k \<Rightarrow> Some k);
          stringContent' = (case stringContent of None \<Rightarrow> bodyText a | Some t \<Rightarrow> t)
      in int (length (js_split stringContent' (to_separator kw'))) - 1)"

definition calculateDensity ::
  "ContentJson \<Rightarrow> HtmlAnalyzer \<Rightarrow> string option \<Rightarrow> string option \<Rightarrow> jsnumber" where
  "calculateDensity c a kw text =
     (let text' = (case text of None \<Rightarrow> bodyText a | Some t \<Rightarrow> t)
      in js_mul
           (js_div (Fin (of_int (countOccurrencesInString c a kw (Some text'))))
                   (of_length (getWordCount a (Some text'))))
           (Fin 100))"

definition getSubKeywordsDensity :: "ContentJson \<Rightarrow> HtmlAnalyzer \<Rightarrow> KeywordDensity list" where
  "getSubKeywordsDensity c a =
     map (\<lambda>subKeyword.
            \<lparr>kd_keyword = Some subKeyword,
             density = calculateDensity c a (Some subKeyword) None,
             position = None\<rparr>)
         (subKeywords c)"

definition totalUniqueInternalLinksCount :: "HtmlAnalyzer \<Rightarrow> nat" where
  "totalUniqueInternalLinksCount a = length (unique (getInternalLinks a))"

definition totalUniqueExternalLinksCount :: "HtmlAnalyzer \<Rightarrow> nat" where
  "totalUniqueExternalLinksCount a = length (unique (getOutboundLinks a))"

text \<open>
  \<open>getPosition\<close>. For a non-empty separator \<open>split\<close> returns at least one piece
  (lemma \<open>js_split_not_Nil\<close> below), so the element \<open>[0]\<close> exists wherever it is read.
\<close>

definition getPosition :: "string \<Rightarrow> string option \<Rightarrow> int" where
  "getPosition text kw =
     (if text = [] \<or> \<not> truthy kw then - 1
      else int (length (js_split (hd (js_split text (to_separator kw))) '' '')))"

definition getKeywordInTitle ::
  "ContentJson \<Rightarrow> HtmlAnalyzer \<Rightarrow> string option \<Rightarrow> KeywordDensity" where
  "getKeywordInTitle c a kw =
     (let kw' = (case kw of None \<Rightarrow> keyword c | Some k \<Rightarrow> Some k)
      in \<lparr>kd_keyword = kw',
          density = calculateDensity c a kw' (Some (title c)),
          position = Some (getPosition (title c) kw')\<rparr>)"

definition getSubKeywordsInTitle :: "ContentJson \<Rightarrow> HtmlAnalyzer \<Rightarrow> KeywordDensity list" where
  "getSubKeywordsInTitle c a =
     map (\<lambda>sub_keyword. getKeywordInTitle c a (Some sub_keyword)) (subKeywords c)"

definition getKeywordInMetaDescription ::
  "ContentJson \<Rightarrow> HtmlAnalyzer \<Rightarrow> string option \<Rightarrow> KeywordDensity" where
  "getKeywordInMetaDescription c a kw =
     (let kw' = (case kw of None \<Rightarrow> keyword c | Some k \<Rightarrow> Some k)
      in \<lparr>kd_keyword = kw',
          density = calculateDensity c a kw' (Some (metaDescription c)),
          position = Some (getPosition (metaDescription c) kw')\<rparr>)"

definition getSubKeywordsInMetaDescription ::
  "ContentJson \<Rightarrow> HtmlAnalyzer \<Rightarrow> KeywordDensity list" where
  "getSubKeywordsInMetaDescription c a =
     map (\<lambda>sub_keyword. getKeywordInMetaDescription c a (Some sub_keyword)) (subKeywords c)"

definition getTitleWordCount :: "ContentJson \<Rightarrow> HtmlAnalyzer \<Rightarrow> nat" where
  "getTitleWordCount c a = getWordCount a (Some (title c))"

section \<open>Scores\<close>

definition getSeoScore :: "SeoAnalyzer \<Rightarrow> jsnumber" where
  "getSeoScore this =
     (let MAX_SCORE = Fin 100;
          w = warnings (messages this);
          g = goodPoints (messages this);
          messagesScore =
            js_mul (js_div (of_length (length g))
                           (js_add (of_length (length w)) (of_length (length g))))
                   (Fin 100)
      in js_min messagesScore MAX_SCORE)"

definition getKeywordSeoScore :: "SeoAnalyzer \<Rightarrow> jsnumber" where
  "getKeywordSeoScore this =
     (let MAX_SCORE = Fin 100;
          keywordInTitle = getKeywordInTitle (content this) (htmlAnalyzer this) None;
          subKeywordsInTitle = getSubKeywordsInTitle (content this) (htmlAnalyzer this);
          subKeywordsDensity = getSubKeywordsDensity (content this) (htmlAnalyzer this);
          keywordInTitleScore = js_mul (density keywordInTitle) (Fin 10);
          subKeywordsInTitleScore = js_mul (of_length (length subKeywordsInTitle)) (Fin 10);
          subKeywordsDensityScore =
            foldl (\<lambda>total subKeywordDensity.
                     js_add total (js_mul (density subKeywordDensity) (Fin 10)))
                  (Fin 0) subKeywordsDensity;
          keywordDensityScore = js_mul (keywordDensity this) (Fin 10);
          totalScore =
            js_add (js_add (js_add keywordInTitleScore subKeywordsInTitleScore)
                           subKeywordsDensityScore)
                   keywordDensityScore
      in js_min totalScore MAX_SCORE)"

section \<open>Message rules\<close>

text \<open>
  The rules mutate \<open>this.messages\<close>; in the model each takes the object and returns it
  updated. \<open>push\<close> appends at the end of a list.
\<close>

definition pushWarning :: "message \<Rightarrow> SeoAnalyzer \<Rightarrow> SeoAnalyzer" where
  "pushWarning m this =
     this\<lparr>messages := (messages this)\<lparr>warnings := warnings (messages this) @ [m]\<rparr>\<rparr>"

definition pushMinorWarning :: "message \<Rightarrow> SeoAnalyzer \<Rightarrow> SeoAnalyzer" where
  "pushMinorWarning m this =
     this\<lparr>messages := (messages this)\<lparr>minorWarnings := minorWarnings (messages this) @ [m]\<rparr>\<rparr>"

definition pushGoodPoint :: "message \<Rightarrow> SeoAnalyzer \<Rightarrow> SeoAnalyzer" where
  "pushGoodPoint m this =
     this\<lparr>messages := (messages this)\<lparr>goodPoints := goodPoints (messages this) @ [m]\<rparr>\<rparr>"

definition assignMessagesForKeyword :: "SeoAnalyzer \<Rightarrow> SeoAnalyzer" where
  "assignMessagesForKeyword this =
     (case keyword (content this) of
        None \<Rightarrow> pushWarning (ForKeyword MissingKeyword) this
      | Some k \<Rightarrow>
          if k = [] then pushWarning (ForKeyword MissingKeyword) this
          else
            let s1 = pushGoodPoint (ForKeyword (KeywordPresent k)) this;
                s2 = (if js_gt (keywordDensity s1) (Fin 5)
                      then pushWarning (ForKeyword KeywordStuffing) s1 else s1)
            in if js_lt (keywordDensity s2) MINIMUM_KEYWORD_DENSITY
               then pushWarning (ForKeyword (KeywordDensityTooLow (keywordDensity s2))) s2
               else if js_gt (keywordDensity s2) MAXIMUM_KEYWORD_DENSITY
               then pushWarning (ForKeyword (KeywordDensityTooHigh (keywordDensity s2))) s2
               else pushGoodPoint (ForKeyword (KeywordDensityGood (keywordDensity s2))) s2)"

definition subKeywordDensityMessage :: "KeywordDensity \<Rightarrow> SeoAnalyzer \<Rightarrow> SeoAnalyzer" where
  "subKeywordDensityMessage subKeywordDensity this =
     (if js_gt (density subKeywordDensity) MAXIMUM_SUB_KEYWORD_DENSITY
      then pushWarning
             (ForSubKeywords (SubKeywordDensityTooHigh (kd_keyword subKeywordDensity)
                (density subKeywordDensity))) this
      else if js_lt (density subKeywordDensity) MINIMUM_SUB_KEYWORD_DENSITY
      then pushMinorWarning
             (ForSubKeywords (SubKeywordDensityLow (kd_keyword subKeywordDensity)
                (js_lt (density subKeywordDensity) EXTREME_LOW_SUB_KEYWORD_DENSITY)
                (density subKeywordDensity))) this
      else pushGoodPoint
             (ForSubKeywords (SubKeywordDensityGood (kd_keyword subKeywordDensity)
                (density subKeywordDensity))) this)"

definition assignMessagesForSubKeywords :: "SeoAnalyzer \<Rightarrow> SeoAnalyzer" where
  "assignMessagesForSubKeywords this =
     (if length (subKeywords (content this)) > 0
      then
        let s1 = pushGoodPoint (ForSubKeywords (SubKeywordsPresent (subKeywords (content this)))) this;
            subKeywordsDensity = getSubKeywordsDensity (content s1) (htmlAnalyzer s1)
        in fold subKeywordDensityMessage subKeywordsDensity s1
      else pushMinorWarning (ForSubKeywords MissingSubKeywords) this)"

definition assignMessagesForTitle :: "SeoAnalyzer \<Rightarrow> SeoAnalyzer" where
  "assignMessagesForTitle this =
     (if title (content this) \<noteq> []
      then
        let s1 = (if length (title (content this)) > MAXIMUM_TITLE_LENGTH
                  then pushWarning (ForTitle TitleTooLong) this
                  else if length (title (content this)) < MINIMUM_TITLE_LENGTH
                  then pushWarning (ForTitle TitleTooShort) this
                  else pushGoodPoint (ForTitle (TitleLengthGood (length (title (content this))))) this);
            keywordInTitle = getKeywordInTitle (content s1) (htmlAnalyzer s1) None;
            s2 = (if js_truthy (density keywordInTitle)
                  then pushGoodPoint (ForTitle (KeywordInTitleDensity (density keywordInTitle))) s1
                  else pushWarning (ForTitle NoKeywordInTitle) s1)
        in if title (content s2) \<noteq> []
           then
             if length (getSubKeywordsInTitle (content s2) (htmlAnalyzer s2)) > 0
             then pushGoodPoint
                    (ForTitle (SubKeywordsInTitle
                       (length (getSubKeywordsInTitle (content s2) (htmlAnalyzer s2))))) s2
             else pushMinorWarning (ForTitle NoSubKeywordsInTitle) s2
           else s2
      else pushWarning (ForTitle MissingTitle) this)"

definition assignMessagesForLinks :: "SeoAnalyzer \<Rightarrow> SeoAnalyzer" where
  "assignMessagesForLinks this =
     (let wordCount = of_length (getWordCount (htmlAnalyzer this) None);
          s1 = (if js_lt (of_length (totalUniqueInternalLinksCount (htmlAnalyzer this)))
                         (js_div wordCount (Fin 300))
                then pushWarning
                       (ForLinks (InternalLinksInsufficient
                          (totalUniqueInternalLinksCount (htmlAnalyzer this)))) this
                else pushGoodPoint
                       (ForLinks (InternalLinksGood
                          (totalUniqueInternalLinksCount (htmlAnalyzer this)))) this);
          s2 = (if js_lt (of_length (totalUniqueExternalLinksCount (htmlAnalyzer s1)))
                         (js_div wordCount (Fin 400))
                then pushWarning
                       (ForLinks (ExternalLinksInsufficient
                          (totalUniqueExternalLinksCount (htmlAnalyzer s1)))) s1
                else s1);
          s3 = (if length (duplicate (getInternalLinks (htmlAnalyzer s2))) > 1
                then pushMinorWarning
                       (ForLinks (DuplicateInternalLinks
                          (length (duplicate (getInternalLinks (htmlAnalyzer s2)))))) s2
                else pushGoodPoint (ForLinks NoDuplicateInternalLinks) s2)
      in if length (duplicate (getOutboundLinks (htmlAnalyzer s3))) > 1
         then pushMinorWarning
                (ForLinks (DuplicateExternalLinks
                   (length (duplicate (getOutboundLinks (htmlAnalyzer s3)))))) s3
         else pushGoodPoint (ForLinks NoDuplicateExternalLinks) s3)"

definition subKeywordMetaMessage :: "KeywordDensity \<Rightarrow> SeoAnalyzer \<Rightarrow> SeoAnalyzer" where
  "subKeywordMetaMessage subKeyword this =
     (if js_gt (density subKeyword) MAXIMUM_SUB_KEYWORD_IN_META_DESCRIPTION_DENSITY
      then pushWarning
             (ForMetaDescription (SubKeywordMetaTooHigh (kd_keyword subKeyword)
                (density subKeyword))) this
      else if js_lt (density subKeyword) MINIMUM_SUB_KEYWORD_IN_META_DESCRIPTION_DENSITY
      then pushMinorWarning
             (ForMetaDescription (SubKeywordMetaLow (kd_keyword subKeyword)
                (js_lt (density subKeyword) (Fin (2 / 10))) (density subKeyword))) this
      else pushGoodPoint
             (ForMetaDescription (SubKeywordMetaGood (kd_keyword subKeyword)
                (density subKeyword))) this)"

text \<open>
  The position of a density built by \<open>getKeywordInMetaDescription\<close> is always set; a
  missing one would compare as \<open>undefined > 1\<close>, which is false.
\<close>

definition position_gt :: "int option \<Rightarrow> int \<Rightarrow> bool" where
  "position_gt p n = (case p of None \<Rightarrow> False | Some i \<Rightarrow> i > n)"

definition assignMessagesForMetaDescription :: "SeoAnalyzer \<Rightarrow> SeoAnalyzer" where
  "assignMessagesForMetaDescription this =
     (if metaDescription (content this) \<noteq> []
      then
        let keywordInMetaDescription =
              getKeywordInMetaDescription (content this) (htmlAnalyzer this) None;
            n = length (metaDescription (content this));
            s1 = (if n > MAXIMUM_META_DESCRIPTION_LENGTH
                  then pushWarning (ForMetaDescription (MetaTooLong n)) this
                  else if n < 100
                  then pushWarning (ForMetaDescription (MetaTooShort n)) this
                  else
                    let s = pushGoodPoint (ForMetaDescription (MetaLengthGood n)) this
                    in if js_gt (density keywordInMetaDescription) MAXIMUM_META_DESCRIPTION_DENSITY
                       then pushWarning
                              (ForMetaDescription (MetaDensityTooHigh
                                 (density keywordInMetaDescription))) s
                       else if js_lt (density keywordInMetaDescription)
                                 MINIMUM_META_DESCRIPTION_DENSITY
                       then pushWarning
                              (ForMetaDescription (MetaDensityTooLow
                                 (density keywordInMetaDescription))) s
                       else pushGoodPoint
                              (ForMetaDescription (MetaDensityGood
                                 (density keywordInMetaDescription))) s);
            s2 = (if position_gt (position keywordInMetaDescription) 1
                  then pushMinorWarning
                         (ForMetaDescription (MetaNotStartingWithKeyword
                            (take 20 (metaDescription (content s1))))) s1
                  else pushGoodPoint
                         (ForMetaDescription (MetaStartsWithKeyword
                            (take 20 (metaDescription (content s1))))) s1);
            subKeywordsInMetaDescription =
              getSubKeywordsInMetaDescription (content s2) (htmlAnalyzer s2)
        in fold subKeywordMetaMessage subKeywordsInMetaDescription s2
      else pushWarning (ForMetaDescription MissingMeta) this)"

definition filterHeading :: "SeoAnalyzer \<Rightarrow> string \<Rightarrow> Heading list" where
  "filterHeading this headingTag =
     filter (\<lambda>heading. toLowerCase (tag heading) = toLowerCase headingTag) (headings this)"

definition assignMessagesForHeadings :: "SeoAnalyzer \<Rightarrow> SeoAnalyzer" where
  "assignMessagesForHeadings this =
     (if length (headings this) = 0
      then pushWarning (ForHeadings MissingHeadings) this
      else
        let s1 = pushGoodPoint (ForHeadings (HeadingCount (length (headings this)))) this;
            headingsOne = filterHeading s1 ''h1'';
            s2 = (if length headingsOne = 0 then pushWarning (ForHeadings MissingH1) s1
                  else if length headingsOne > 1 then pushWarning (ForHeadings MultipleH1) s1
                  else pushGoodPoint (ForHeadings GoodH1) s1);
            headingsTwo = filterHeading s2 ''h2'';
            s3 = (if length headingsTwo = 0 then pushWarning (ForHeadings MissingH2) s2
                  else pushGoodPoint (ForHeadings GoodH2) s2);
            headingsThree = filterHeading s3 ''h3''
        in if length headingsThree = 0 then pushMinorWarning (ForHeadings MissingH3) s3
           else pushGoodPoint (ForHeadings GoodH3) s3)"

definition keywordInHeadingMessage :: "Heading \<Rightarrow> SeoAnalyzer \<Rightarrow> SeoAnalyzer" where
  "keywordInHeadingMessage heading this =
     (let keywordInHeading =
            countOccurrencesInString (content this) (htmlAnalyzer this)
              (keyword (content this)) (Some (heading_text heading))
      in if keywordInHeading > 0
         then pushGoodPoint
                (ForKeywordInHeadings (KeywordInHeading (keyword (content this))
                   (tag heading) (heading_text heading))) this
         else pushMinorWarning
                (ForKeywordInHeadings (KeywordNotInHeading (keyword (content this))
                   (tag heading) (heading_text heading))) this)"

definition assignMessagesForKeywordInHeadings :: "SeoAnalyzer \<Rightarrow> SeoAnalyzer" where
  "assignMessagesForKeywordInHeadings this = fold keywordInHeadingMessage (headings this) this"

definition subKeywordInHeadingMessage ::
  "Heading \<Rightarrow> string \<Rightarrow> SeoAnalyzer \<Rightarrow> SeoAnalyzer" where
  "subKeywordInHeadingMessage heading subKeyword this =
     (let subKeywordInHeading =
            countOccurrencesInString (content this) (htmlAnalyzer this)
              (Some subKeyword) (Some (heading_text heading))
      in if subKeywordInHeading > 0
         then pushGoodPoint
                (ForSubKeywordsInHeadings (SubKeywordInHeading subKeyword
                   (tag heading) (heading_text heading))) this
         else pushMinorWarning
                (ForSubKeywordsInHeadings (SubKeywordNotInHeading subKeyword
                   (tag heading) (heading_text heading))) this)"

definition assignMessagesForSubKeywordsInHeadings :: "SeoAnalyzer \<Rightarrow> SeoAnalyzer" where
  "assignMessagesForSubKeywordsInHeadings this =
     fold (\<lambda>heading s. fold (subKeywordInHeadingMessage heading) (subKeywords (content s)) s)
          (headings this) this"

definition assignMessages :: "SeoAnalyzer \<Rightarrow> SeoAnalyzer" where
  "assignMessages this =
     (let s1 = assignMessagesForKeyword this;
          s2 = assignMessagesForSubKeywords s1;
          s3 = assignMessagesForTitle s2;
          s4 = assignMessagesForLinks s3;
          s5 = assignMessagesForMetaDescription s4;
          s6 = assignMessagesForKeywordInHeadings s5;
          s7 = assignMessagesForSubKeywordsInHeadings s6
      in assignMessagesForHeadings s7)"

section \<open>Construction\<close>

text \<open>
  The constructor: \<open>initialise\<close> is the object when the fields have been assigned, before
  \<open>assignMessages\<close> runs. The analyzer's heading list is taken by value: the synthetic
  heading is pushed onto the list the analyzer returned for this call.
\<close>

definition initialise :: "ContentJson \<Rightarrow> HtmlAnalyzer \<Rightarrow> bool \<Rightarrow> SeoAnalyzer" where
  "initialise c a strict =
     \<lparr>content = c,
      htmlAnalyzer = a,
      keywordDensity = calculateDensity c a (keyword c) None,
      strictMode = strict,
      headings = (if \<not> strict
                  then getAllHeadingTags a @ [\<lparr>tag = ''H1'', heading_text = title c\<rparr>]
                  else getAllHeadingTags a),
      messages = \<lparr>warnings = [], minorWarnings = [], goodPoints = []\<rparr>\<rparr>"

definition constructor :: "ContentJson \<Rightarrow> HtmlAnalyzer \<Rightarrow> bool \<Rightarrow> SeoAnalyzer" where
  "constructor c a strict = assignMessages (initialise c a strict)"

section \<open>Definitions used in the statements\<close>

text \<open>
  The text before the first occurrence of a keyword (the whole text when there is none),
  as the specification's \<open>splitOnFirst(keyword).before\<close>.
\<close>

fun before_first :: "string \<Rightarrow> string \<Rightarrow> string" where
  "before_first k [] = []"
| "before_first k (c # cs) = (if prefix k (c # cs) then [] else c # before_first k cs)"

text \<open>
  The specification's formula for the overall score, on the lengths of the warnings and
  good-points lists, in exact arithmetic.
\<close>

definition overallScore_formula :: "nat \<Rightarrow> nat \<Rightarrow> rat" where
  "overallScore_formula w g = min 100 (of_nat g / of_nat (w + g) * 100)"

text \<open>A number of the closed interval from 0 to 100.\<close>

definition in_0_100 :: "jsnumber \<Rightarrow> bool" where
  "in_0_100 x = (case x of Fin r \<Rightarrow> 0 \<le> r \<and> r \<le> 100 | _ \<Rightarrow> False)"

text \<open>
  \<open>appends A s s'\<close>: the object \<open>s'\<close> is \<open>s\<close> with messages of the set \<open>A\<close> appended to
  its three lists, every other field unchanged.
\<close>

definition appends :: "message set \<Rightarrow> SeoAnalyzer \<Rightarrow> SeoAnalyzer \<Rightarrow> bool" where
  "appends A s s' =
     (\<exists>w n g. set w \<subseteq> A \<and> set n \<subseteq> A \<and> set g \<subseteq> A \<and>
        s' = s\<lparr>messages :=
                 \<lparr>warnings = warnings (messages s) @ w,
                  minorWarnings = minorWarnings (messages s) @ n,
                  goodPoints = goodPoints (messages s) @ g\<rparr>\<rparr>)"

text \<open>
  An analyzer for the examples: a document given by its body text, its headings and its
  unique internal and outbound links, without duplicate links, that counts as words the
  non-empty pieces between single spaces.
\<close>

definition countWords :: "string \<Rightarrow> nat" where
  "countWords t = length (filter (\<lambda>w. w \<noteq> []) (js_split t '' ''))"

definition plainDocument ::
  "string \<Rightarrow> Heading list \<Rightarrow> string list \<Rightarrow> string list \<Rightarrow> HtmlAnalyzer" where
  "plainDocument body hs internal outbound =
     \<lparr>bodyText = body,
      getWordCount = (\<lambda>t. countWords (case t of None \<Rightarrow> body | Some x \<Rightarrow> x)),
      getAllHeadingTags = hs,
      getInternalLinks = \<lparr>unique = internal, duplicate = []\<rparr>,
      getOutboundLinks = \<lparr>unique = outbound, duplicate = []\<rparr>\<rparr>"

text \<open>A content and a document for the examples.\<close>

definition exampleContent :: ContentJson where
  "exampleContent =
     \<lparr>title = ''hello world'', metaDescription = '''', keyword = Some ''hello'',
      subKeywords = [''xyz'']\<rparr>"

definition exampleDocument :: HtmlAnalyzer where
  "exampleDocument = plainDocument ''hello big world'' [] [] []"

text \<open>A number that is finite and not negative.\<close>

definition nonneg :: "jsnumber \<Rightarrow> bool" where
  "nonneg x = (case x of Fin r \<Rightarrow> 0 \<le> r | _ \<Rightarrow> False)"

text \<open>
  A document as \<open>plainDocument\<close>, except that its word count is the number of pieces
  between single spaces, empty pieces included, so that no text has zero words.
\<close>

definition spaceSplitDocument :: "string \<Rightarrow> HtmlAnalyzer" where
  "spaceSplitDocument body =
     (plainDocument body [] [] [])
       \<lparr>getWordCount :=
          (\<lambda>t. length (js_split (case t of None \<Rightarrow> body | Some x \<Rightarrow> x) '' ''))\<rparr>"

text \<open>A content whose primary keyword is the empty string, for an empty document.\<close>

definition emptyContent :: ContentJson where
  "emptyContent = \<lparr>title = '''', metaDescription = '''', keyword = Some '''', subKeywords = []\<rparr>"

section \<open>Properties of the string operations\<close>

lemma split_from_not_Nil: "split_from sep piece cs \<noteq> []"
  by (induction sep piece cs rule: split_from.induct) auto

lemma js_split_not_Nil: "R \<noteq> [] \<Longrightarrow> js_split S R \<noteq> []"
  by (simp add: js_split_def split_from_not_Nil)

lemma hd_split_from:
  "hd (split_from (s # sep) piece cs) = piece @ before_first (s # sep) cs"
  by (induction cs arbitrary: piece) auto

lemma hd_js_split: "k \<noteq> [] \<Longrightarrow> hd (js_split t k) = before_first k t"
  by (cases k) (simp_all add: js_split_def hd_split_from)

lemma before_first_decomp:
  "k \<noteq> [] \<Longrightarrow> t = p @ k @ r \<Longrightarrow>
   (\<forall>p' r'. t = p' @ k @ r' \<longrightarrow> length p \<le> length p') \<Longrightarrow> before_first k t = p"
proof (induction p arbitrary: t)
  case Nil
  then show ?case by (cases k) auto
next
  case (Cons x p1)
  have np: "\<not> prefix k t"
  proof
    assume "prefix k t"
    then obtain r' where "t = [] @ k @ r'" by (auto simp: prefix_def)
    with Cons.prems(3) have "length (x # p1) \<le> length ([]::string)" by blast
    then show False by simp
  qed
  have min: "\<forall>p' r'. p1 @ k @ r = p' @ k @ r' \<longrightarrow> length p1 \<le> length p'"
  proof (intro allI impI)
    fix p' r' assume "p1 @ k @ r = p' @ k @ r'"
    then have "t = (x # p') @ k @ r'" using Cons.prems(2) by simp
    with Cons.prems(3) have "length (x # p1) \<le> length (x # p')" by blast
    then show "length p1 \<le> length p'" by simp
  qed
  from Cons.IH[OF Cons.prems(1) refl min] np Cons.prems(2) show ?case by simp
qed

lemma length_split_from_char:
  "length (split_from [c] piece cs) = 1 + count_list cs c"
  by (induction cs arbitrary: piece) auto

lemma length_split_space: "length (js_split t '' '') = 1 + count_list t CHR '' ''"
  by (simp add: js_split_def length_split_from_char)

section \<open>The rules only append messages\<close>

lemma appends_refl: "appends A s s"
  unfolding appends_def
  by (rule exI[of _ "[]"], rule exI[of _ "[]"], rule exI[of _ "[]"]) simp

lemma appends_trans:
  assumes "appends A s s'" and "appends A s' s''"
  shows "appends A s s''"
proof -
  from assms(1) obtain w n g where 1: "set w \<subseteq> A" "set n \<subseteq> A" "set g \<subseteq> A"
    and s': "s' = s\<lparr>messages :=
                 \<lparr>warnings = warnings (messages s) @ w,
                  minorWarnings = minorWarnings (messages s) @ n,
                  goodPoints = goodPoints (messages s) @ g\<rparr>\<rparr>"
    unfolding appends_def by blast
  from assms(2) obtain w' n' g' where 2: "set w' \<subseteq> A" "set n' \<subseteq> A" "set g' \<subseteq> A"
    and s'': "s'' = s'\<lparr>messages :=
                 \<lparr>warnings = warnings (messages s') @ w',
                  minorWarnings = minorWarnings (messages s') @ n',
                  goodPoints = goodPoints (messages s') @ g'\<rparr>\<rparr>"
    unfolding appends_def by blast
  show ?thesis
    unfolding appends_def
    by (rule exI[of _ "w @ w'"], rule exI[of _ "n @ n'"], rule exI[of _ "g @ g'"])
       (simp add: 1 2 s' s'')
qed

lemma appends_mono: "appends A s s' \<Longrightarrow> A \<subseteq> B \<Longrightarrow> appends B s s'"
  unfolding appends_def by blast

lemma appends_pushWarning: "m \<in> A \<Longrightarrow> appends A s (pushWarning m s)"
  unfolding appends_def pushWarning_def
  by (rule exI[of _ "[m]"], rule exI[of _ "[]"], rule exI[of _ "[]"]) simp

lemma appends_pushMinorWarning: "m \<in> A \<Longrightarrow> appends A s (pushMinorWarning m s)"
  unfolding appends_def pushMinorWarning_def
  by (rule exI[of _ "[]"], rule exI[of _ "[m]"], rule exI[of _ "[]"]) simp

lemma appends_pushGoodPoint: "m \<in> A \<Longrightarrow> appends A s (pushGoodPoint m s)"
  unfolding appends_def pushGoodPoint_def
  by (rule exI[of _ "[]"], rule exI[of _ "[]"], rule exI[of _ "[m]"]) simp

lemma appends_then_pushWarning:
  "appends A s s' \<Longrightarrow> m \<in> A \<Longrightarrow> appends A s (pushWarning m s')"
  by (blast intro: appends_trans appends_pushWarning)

lemma appends_then_pushMinorWarning:
  "appends A s s' \<Longrightarrow> m \<in> A \<Longrightarrow> appends A s (pushMinorWarning m s')"
  by (blast intro: appends_trans appends_pushMinorWarning)

lemma appends_then_pushGoodPoint:
  "appends A s s' \<Longrightarrow> m \<in> A \<Longrightarrow> appends A s (pushGoodPoint m s')"
  by (blast intro: appends_trans appends_pushGoodPoint)

lemma appends_fold:
  "(\<And>x s. appends A s (f x s)) \<Longrightarrow> appends A s (fold f xs s)"
proof (induction xs arbitrary: s)
  case Nil
  show ?case by (simp add: appends_refl)
next
  case (Cons x xs)
  show ?case using Cons.prems Cons.IH[OF Cons.prems] 
    by (auto intro: appends_trans)
qed

lemma appends_then_fold:
  assumes "appends A s s'" and "\<And>x s. appends A s (f x s)"
  shows "appends A s (fold f xs s')"
proof -
  have "appends A s' (fold f xs s')"
    by (rule appends_fold) (rule assms(2))
  with assms(1) show ?thesis by (rule appends_trans)
qed

lemma appends_if:
  "(b \<Longrightarrow> appends A s x) \<Longrightarrow> (\<not> b \<Longrightarrow> appends A s y) \<Longrightarrow>
   appends A s (if b then x else y)"
  by simp

lemmas appends_intros =
  appends_if appends_refl appends_then_pushWarning appends_then_pushMinorWarning
  appends_then_pushGoodPoint rangeI

lemma appends_content: "appends A s s' \<Longrightarrow> content s' = content s"
  and appends_htmlAnalyzer: "appends A s s' \<Longrightarrow> htmlAnalyzer s' = htmlAnalyzer s"
  and appends_keywordDensity: "appends A s s' \<Longrightarrow> keywordDensity s' = keywordDensity s"
  and appends_headings: "appends A s s' \<Longrightarrow> headings s' = headings s"
  and appends_strictMode: "appends A s s' \<Longrightarrow> strictMode s' = strictMode s"
  unfolding appends_def by auto

lemma assignMessagesForKeyword_appends:
  "appends (range ForKeyword) s (assignMessagesForKeyword s)"
  unfolding assignMessagesForKeyword_def Let_def
  by (cases "keyword (content s)"; simp only: option.case; intro appends_intros)

lemma subKeywordDensityMessage_appends:
  "appends (range ForSubKeywords) s (subKeywordDensityMessage d s)"
  unfolding subKeywordDensityMessage_def
  by (intro appends_intros)

lemma assignMessagesForSubKeywords_appends:
  "appends (range ForSubKeywords) s (assignMessagesForSubKeywords s)"
  unfolding assignMessagesForSubKeywords_def Let_def
  by (intro appends_intros appends_then_fold subKeywordDensityMessage_appends)

lemma assignMessagesForTitle_appends:
  "appends (range ForTitle) s (assignMessagesForTitle s)"
  unfolding assignMessagesForTitle_def Let_def
  by (intro appends_intros)

lemma assignMessagesForLinks_appends:
  "appends (range ForLinks) s (assignMessagesForLinks s)"
  unfolding assignMessagesForLinks_def Let_def
  by (intro appends_intros)

lemma subKeywordMetaMessage_appends:
  "appends (range ForMetaDescription) s (subKeywordMetaMessage d s)"
  unfolding subKeywordMetaMessage_def
  by (intro appends_intros)

lemma assignMessagesForMetaDescription_appends:
  "appends (range ForMetaDescription) s (assignMessagesForMetaDescription s)"
  unfolding assignMessagesForMetaDescription_def Let_def
  by (intro appends_intros appends_then_fold subKeywordMetaMessage_appends)

lemma keywordInHeadingMessage_appends:
  "appends (range ForKeywordInHeadings) s (keywordInHeadingMessage h s)"
  unfolding keywordInHeadingMessage_def Let_def
  by (intro appends_intros)

lemma assignMessagesForKeywordInHeadings_appends:
  "appends (range ForKeywordInHeadings) s (assignMessagesForKeywordInHeadings s)"
  unfolding assignMessagesForKeywordInHeadings_def
  by (intro appends_fold keywordInHeadingMessage_appends)

lemma subKeywordInHeadingMessage_appends:
  "appends (range ForSubKeywordsInHeadings) s (subKeywordInHeadingMessage h k s)"
  unfolding subKeywordInHeadingMessage_def Let_def
  by (intro appends_intros)

lemma assignMessagesForSubKeywordsInHeadings_appends:
  "appends (range ForSubKeywordsInHeadings) s (assignMessagesForSubKeywordsInHeadings s)"
  unfolding assignMessagesForSubKeywordsInHeadings_def
  by (intro appends_fold subKeywordInHeadingMessage_appends)

lemma assignMessagesForHeadings_appends:
  "appends (range ForHeadings) s (assignMessagesForHeadings s)"
  unfolding assignMessagesForHeadings_def Let_def
  by (intro appends_intros)

lemma appends_length:
  assumes "appends A s s'"
  shows "length (warnings (messages s)) \<le> length (warnings (messages s'))"
    and "length (goodPoints (messages s)) \<le> length (goodPoints (messages s'))"
  using assms unfolding appends_def by auto

lemma appends_member:
  assumes "appends A s s'"
  shows "m \<in> set (warnings (messages s)) \<Longrightarrow> m \<in> set (warnings (messages s'))"
    and "m \<in> set (minorWarnings (messages s)) \<Longrightarrow> m \<in> set (minorWarnings (messages s'))"
    and "m \<in> set (goodPoints (messages s)) \<Longrightarrow> m \<in> set (goodPoints (messages s'))"
  using assms unfolding appends_def by auto

lemma appends_other:
  assumes "appends A s s'" and "m \<notin> A"
  shows "m \<in> set (warnings (messages s')) \<longleftrightarrow> m \<in> set (warnings (messages s))"
    and "m \<in> set (minorWarnings (messages s')) \<longleftrightarrow> m \<in> set (minorWarnings (messages s))"
    and "m \<in> set (goodPoints (messages s')) \<longleftrightarrow> m \<in> set (goodPoints (messages s))"
  using assms unfolding appends_def by auto

lemma push_fields [simp]:
  "content (pushWarning m s) = content s"
  "content (pushMinorWarning m s) = content s"
  "content (pushGoodPoint m s) = content s"
  "htmlAnalyzer (pushWarning m s) = htmlAnalyzer s"
  "htmlAnalyzer (pushMinorWarning m s) = htmlAnalyzer s"
  "htmlAnalyzer (pushGoodPoint m s) = htmlAnalyzer s"
  "keywordDensity (pushWarning m s) = keywordDensity s"
  "keywordDensity (pushMinorWarning m s) = keywordDensity s"
  "keywordDensity (pushGoodPoint m s) = keywordDensity s"
  "headings (pushWarning m s) = headings s"
  "headings (pushMinorWarning m s) = headings s"
  "headings (pushGoodPoint m s) = headings s"
  by (simp_all add: pushWarning_def pushMinorWarning_def pushGoodPoint_def)

lemma push_messages [simp]:
  "warnings (messages (pushWarning m s)) = warnings (messages s) @ [m]"
  "minorWarnings (messages (pushWarning m s)) = minorWarnings (messages s)"
  "goodPoints (messages (pushWarning m s)) = goodPoints (messages s)"
  "warnings (messages (pushMinorWarning m s)) = warnings (messages s)"
  "minorWarnings (messages (pushMinorWarning m s)) = minorWarnings (messages s) @ [m]"
  "goodPoints (messages (pushMinorWarning m s)) = goodPoints (messages s)"
  "warnings (messages (pushGoodPoint m s)) = warnings (messages s)"
  "minorWarnings (messages (pushGoodPoint m s)) = minorWarnings (messages s)"
  "goodPoints (messages (pushGoodPoint m s)) = goodPoints (messages s) @ [m]"
  by (simp_all add: pushWarning_def pushMinorWarning_def pushGoodPoint_def)

lemma keyword_rule_pushes:
  "1 \<le> length (warnings (messages (assignMessagesForKeyword s)))
       + length (goodPoints (messages (assignMessagesForKeyword s)))"
  by (simp add: assignMessagesForKeyword_def Let_def split: option.split)

lemma keyword_rule_KeywordPresent:
  "keyword (content s) = Some k \<Longrightarrow> k \<noteq> [] \<Longrightarrow>
   ForKeyword (KeywordPresent k) \<in> set (goodPoints (messages (assignMessagesForKeyword s)))"
  by (simp add: assignMessagesForKeyword_def Let_def)

lemma keyword_rule_MissingKeyword:
  "\<not> truthy (keyword (content s)) \<Longrightarrow>
   ForKeyword MissingKeyword \<in> set (warnings (messages (assignMessagesForKeyword s)))"
  by (simp add: assignMessagesForKeyword_def truthy_def split: option.splits)

lemma after_keyword_appends:
  "appends UNIV (assignMessagesForKeyword s) (assignMessages s)"
  unfolding assignMessages_def Let_def
  by (intro appends_trans[OF _ appends_mono[OF assignMessagesForHeadings_appends]]
            appends_trans[OF _ appends_mono[OF assignMessagesForSubKeywordsInHeadings_appends]]
            appends_trans[OF _ appends_mono[OF assignMessagesForKeywordInHeadings_appends]]
            appends_trans[OF _ appends_mono[OF assignMessagesForMetaDescription_appends]]
            appends_trans[OF _ appends_mono[OF assignMessagesForLinks_appends]]
            appends_trans[OF _ appends_mono[OF assignMessagesForTitle_appends]]
            appends_mono[OF assignMessagesForSubKeywords_appends] subset_UNIV)

lemma assignMessages_appends: "appends UNIV s (assignMessages s)"
  by (rule appends_trans[OF appends_mono[OF assignMessagesForKeyword_appends subset_UNIV]
        after_keyword_appends])

lemma assignMessages_nonempty:
  "1 \<le> length (warnings (messages (assignMessages s)))
       + length (goodPoints (messages (assignMessages s)))"
  using keyword_rule_pushes[of s] appends_length[OF after_keyword_appends[of s]]
  by linarith

lemma constructor_nonempty:
  "1 \<le> length (warnings (messages (constructor c a strict)))
       + length (goodPoints (messages (constructor c a strict)))"
  unfolding constructor_def by (rule assignMessages_nonempty)

lemma constructor_fields:
  "content (constructor c a strict) = c"
  "htmlAnalyzer (constructor c a strict) = a"
  "keywordDensity (constructor c a strict) = calculateDensity c a (keyword c) None"
  "headings (constructor c a strict) =
     (if \<not> strict then getAllHeadingTags a @ [\<lparr>tag = ''H1'', heading_text = title c\<rparr>]
      else getAllHeadingTags a)"
  unfolding constructor_def
  by (simp_all add: initialise_def appends_content[OF assignMessages_appends]
        appends_htmlAnalyzer[OF assignMessages_appends]
        appends_keywordDensity[OF assignMessages_appends]
        appends_headings[OF assignMessages_appends])

lemma assignMessages_unfold:
  "assignMessages s =
     assignMessagesForHeadings
       (assignMessagesForSubKeywordsInHeadings
         (assignMessagesForKeywordInHeadings
           (assignMessagesForMetaDescription
             (assignMessagesForLinks
               (assignMessagesForTitle
                 (assignMessagesForSubKeywords (assignMessagesForKeyword s)))))))"
  by (simp add: assignMessages_def Let_def)

lemma before_title_appends:
  "appends (- range ForTitle) s (assignMessagesForSubKeywords (assignMessagesForKeyword s))"
  by (rule appends_trans[OF appends_mono[OF assignMessagesForKeyword_appends]
        appends_mono[OF assignMessagesForSubKeywords_appends]]) auto

lemma after_title_appends:
  "appends (- range ForTitle) s
     (assignMessagesForHeadings
       (assignMessagesForSubKeywordsInHeadings
         (assignMessagesForKeywordInHeadings
           (assignMessagesForMetaDescription
             (assignMessagesForLinks s)))))"
  by (rule appends_trans[OF appends_trans[OF appends_trans[OF appends_trans[OF
        appends_mono[OF assignMessagesForLinks_appends]
        appends_mono[OF assignMessagesForMetaDescription_appends]]
        appends_mono[OF assignMessagesForKeywordInHeadings_appends]]
        appends_mono[OF assignMessagesForSubKeywordsInHeadings_appends]]
        appends_mono[OF assignMessagesForHeadings_appends]]) auto

lemma before_headings_appends:
  "appends (- range ForHeadings) s
       (assignMessagesForSubKeywordsInHeadings
         (assignMessagesForKeywordInHeadings
           (assignMessagesForMetaDescription
             (assignMessagesForLinks
               (assignMessagesForTitle
                 (assignMessagesForSubKeywords (assignMessagesForKeyword s)))))))"
  by (rule appends_trans[OF appends_trans[OF appends_trans[OF appends_trans[OF
        appends_trans[OF appends_trans[OF
        appends_mono[OF assignMessagesForKeyword_appends]
        appends_mono[OF assignMessagesForSubKeywords_appends]]
        appends_mono[OF assignMessagesForTitle_appends]]
        appends_mono[OF assignMessagesForLinks_appends]]
        appends_mono[OF assignMessagesForMetaDescription_appends]]
        appends_mono[OF assignMessagesForKeywordInHeadings_appends]]
        appends_mono[OF assignMessagesForSubKeywordsInHeadings_appends]]) auto

lemma initialise_fields [simp]:
  "content (initialise c a strict) = c"
  "htmlAnalyzer (initialise c a strict) = a"
  "warnings (messages (initialise c a strict)) = []"
  "minorWarnings (messages (initialise c a strict)) = []"
  "goodPoints (messages (initialise c a strict)) = []"
  by (simp_all add: initialise_def)

section \<open>The overall score of a constructed object\<close>

lemma getSeoScore_formula:
  assumes "1 \<le> length (warnings (messages s)) + length (goodPoints (messages s))"
  shows "getSeoScore s =
           Fin (overallScore_formula (length (warnings (messages s)))
                                     (length (goodPoints (messages s))))"
proof -
  have nz: "(of_nat (length (warnings (messages s))) :: rat)
              + of_nat (length (goodPoints (messages s))) \<noteq> 0"
    using assms by (metis of_nat_add of_nat_eq_0_iff not_one_le_zero)
  show ?thesis
    using nz
    by (simp add: getSeoScore_def overallScore_formula_def of_length_def Let_def min_def)
qed

lemma overallScore_formula_range:
  "0 \<le> overallScore_formula w g \<and> overallScore_formula w g \<le> 100"
  by (simp add: overallScore_formula_def)

lemma lengths_sum_nonzero:
  "1 \<le> (w::nat) + g \<Longrightarrow> (of_nat w :: rat) + of_nat g \<noteq> 0"
  by (metis of_nat_add of_nat_eq_0_iff not_one_le_zero)

lemma getSeoScore_in_range: "in_0_100 (getSeoScore (constructor c a strict))"
  using overallScore_formula_range
  by (simp add: getSeoScore_formula[OF constructor_nonempty] in_0_100_def)

section \<open>The keyword score\<close>

lemma nonneg_Fin [simp]: "nonneg (Fin r) \<longleftrightarrow> 0 \<le> r"
  by (simp add: nonneg_def)

lemma nonneg_add: "nonneg x \<Longrightarrow> nonneg y \<Longrightarrow> nonneg (js_add x y)"
  by (cases x; cases y) (simp_all add: nonneg_def)

lemma nonneg_times_10: "nonneg x \<Longrightarrow> nonneg (js_mul x (Fin 10))"
  by (cases x) (simp_all add: nonneg_def)

lemma nonneg_min_100: "nonneg x \<Longrightarrow> in_0_100 (js_min x (Fin 100))"
  by (cases x) (simp_all add: nonneg_def in_0_100_def)

lemma nonneg_foldl:
  "nonneg z \<Longrightarrow> (\<And>d. d \<in> set ds \<Longrightarrow> nonneg (density d)) \<Longrightarrow>
   nonneg (foldl (\<lambda>total d. js_add total (js_mul (density d) (Fin 10))) z ds)"
  by (induction ds arbitrary: z) (simp_all add: nonneg_add nonneg_times_10)

lemma countOccurrences_nonneg:
  "to_separator (case kw of None \<Rightarrow> keyword c | Some k \<Rightarrow> Some k) \<noteq> [] \<Longrightarrow>
   0 \<le> countOccurrencesInString c a kw t"
  using js_split_not_Nil[where R = "to_separator (case kw of None \<Rightarrow> keyword c | Some k \<Rightarrow> Some k)"
          and S = "case t of None \<Rightarrow> bodyText a | Some t \<Rightarrow> t"]
  by (simp add: countOccurrencesInString_def Let_def Suc_le_eq)

lemma calculateDensity_nonneg:
  assumes "to_separator (case kw of None \<Rightarrow> keyword c | Some k \<Rightarrow> Some k) \<noteq> []"
    and "0 < getWordCount a (Some (case tx of None \<Rightarrow> bodyText a | Some t \<Rightarrow> t))"
  shows "nonneg (calculateDensity c a kw tx)"
  using countOccurrences_nonneg[OF assms(1), where a = a
          and t = "Some (case tx of None \<Rightarrow> bodyText a | Some t \<Rightarrow> t)"]
    assms(2)
  by (simp add: calculateDensity_def Let_def of_length_def)

lemma min_100_not_above: "\<not> js_gt (js_min x (Fin 100)) (Fin 100)"
  by (cases x) (simp_all add: js_gt_def)

lemma getKeywordSeoScore_not_above: "\<not> js_gt (getKeywordSeoScore s) (Fin 100)"
  by (simp add: getKeywordSeoScore_def Let_def min_100_not_above)

lemma getKeywordSeoScore_in_range:
  assumes body: "0 < getWordCount a (Some (bodyText a))"
    and ttl: "0 < getWordCount a (Some (title c))"
    and kw: "keyword c \<noteq> Some []"
    and subs: "[] \<notin> set (subKeywords c)"
  shows "in_0_100 (getKeywordSeoScore (constructor c a strict))"
proof -
  have sep: "to_separator (keyword c) \<noteq> []"
    using kw by (cases "keyword c") (simp_all add: to_separator_def)
  then have sep': "to_separator (case keyword c of None \<Rightarrow> keyword c | Some k \<Rightarrow> Some k) \<noteq> []"
    by (cases "keyword c") simp_all
  have 1: "nonneg (density (getKeywordInTitle c a None))"
    unfolding getKeywordInTitle_def Let_def
    using calculateDensity_nonneg[where kw = "keyword c" and c = c and a = a and tx = "Some (title c)"] sep' ttl
    by (cases "keyword c") simp_all
  have 2: "nonneg (of_length (length (getSubKeywordsInTitle c a)))"
    by (simp add: of_length_def)
  have 3: "nonneg (density d)" if "d \<in> set (getSubKeywordsDensity c a)" for d
  proof -
    from that obtain sub where "sub \<in> set (subKeywords c)"
      and d: "density d = calculateDensity c a (Some sub) None"
      by (auto simp: getSubKeywordsDensity_def)
    with subs have "sub \<noteq> []" by auto
    then show ?thesis
      unfolding d using body
      by (intro calculateDensity_nonneg) (simp_all add: to_separator_def)
  qed
  have 4: "nonneg (keywordDensity (constructor c a strict))"
    unfolding constructor_fields using sep' body
    by (intro calculateDensity_nonneg) simp_all
  show ?thesis
    unfolding getKeywordSeoScore_def Let_def constructor_fields
    by (intro nonneg_min_100 nonneg_add nonneg_times_10 nonneg_foldl 1 2 3 4[unfolded constructor_fields])
       simp_all
qed

section \<open>Title and heading messages of a constructed object\<close>

text \<open>What the title rule adds, message by message.\<close>

lemma title_rule_TitleLengthGood:
  "ForTitle (TitleLengthGood n) \<in> set (goodPoints (messages (assignMessagesForTitle s))) \<longleftrightarrow>
     ForTitle (TitleLengthGood n) \<in> set (goodPoints (messages s)) \<or>
     (title (content s) \<noteq> [] \<and> n = length (title (content s)) \<and> 40 \<le> n \<and> n \<le> 70)"
  by (auto simp add: assignMessagesForTitle_def Let_def MAXIMUM_TITLE_LENGTH_def
        MINIMUM_TITLE_LENGTH_def)

lemma title_rule_TitleTooShort:
  "ForTitle TitleTooShort \<in> set (warnings (messages (assignMessagesForTitle s))) \<longleftrightarrow>
     ForTitle TitleTooShort \<in> set (warnings (messages s)) \<or>
     (title (content s) \<noteq> [] \<and> length (title (content s)) < 40)"
  by (auto simp add: assignMessagesForTitle_def Let_def MAXIMUM_TITLE_LENGTH_def
        MINIMUM_TITLE_LENGTH_def)

lemma title_rule_TitleTooLong:
  "ForTitle TitleTooLong \<in> set (warnings (messages (assignMessagesForTitle s))) \<longleftrightarrow>
     ForTitle TitleTooLong \<in> set (warnings (messages s)) \<or>
     (title (content s) \<noteq> [] \<and> 70 < length (title (content s)))"
  by (auto simp add: assignMessagesForTitle_def Let_def MAXIMUM_TITLE_LENGTH_def
        MINIMUM_TITLE_LENGTH_def)

lemma constructor_title_messages:
  fixes c a strict
  defines "s2 \<equiv> assignMessagesForSubKeywords (assignMessagesForKeyword (initialise c a strict))"
  shows "ForTitle m \<in> set (warnings (messages (constructor c a strict))) \<longleftrightarrow>
           ForTitle m \<in> set (warnings (messages (assignMessagesForTitle s2)))"
    and "ForTitle m \<in> set (minorWarnings (messages (constructor c a strict))) \<longleftrightarrow>
           ForTitle m \<in> set (minorWarnings (messages (assignMessagesForTitle s2)))"
    and "ForTitle m \<in> set (goodPoints (messages (constructor c a strict))) \<longleftrightarrow>
           ForTitle m \<in> set (goodPoints (messages (assignMessagesForTitle s2)))"
    and "content s2 = c" and "htmlAnalyzer s2 = a"
    and "ForTitle m \<notin> set (warnings (messages s2))"
    and "ForTitle m \<notin> set (minorWarnings (messages s2))"
    and "ForTitle m \<notin> set (goodPoints (messages s2))"
proof -
  have n: "ForTitle m \<notin> - range ForTitle" by simp
  have c: "constructor c a strict =
     assignMessagesForHeadings
       (assignMessagesForSubKeywordsInHeadings
         (assignMessagesForKeywordInHeadings
           (assignMessagesForMetaDescription
             (assignMessagesForLinks (assignMessagesForTitle s2)))))"
    by (simp add: constructor_def assignMessages_unfold s2_def)
  show "ForTitle m \<in> set (warnings (messages (constructor c a strict))) \<longleftrightarrow>
           ForTitle m \<in> set (warnings (messages (assignMessagesForTitle s2)))"
    unfolding c by (rule appends_other(1)[OF after_title_appends n])
  show "ForTitle m \<in> set (minorWarnings (messages (constructor c a strict))) \<longleftrightarrow>
           ForTitle m \<in> set (minorWarnings (messages (assignMessagesForTitle s2)))"
    unfolding c by (rule appends_other(2)[OF after_title_appends n])
  show "ForTitle m \<in> set (goodPoints (messages (constructor c a strict))) \<longleftrightarrow>
           ForTitle m \<in> set (goodPoints (messages (assignMessagesForTitle s2)))"
    unfolding c by (rule appends_other(3)[OF after_title_appends n])
  have b: "appends (- range ForTitle) (initialise c a strict) s2"
    unfolding s2_def by (rule before_title_appends)
  show "content s2 = c" using appends_content[OF b] by simp
  show "htmlAnalyzer s2 = a" using appends_htmlAnalyzer[OF b] by simp
  show "ForTitle m \<notin> set (warnings (messages s2))"
    using appends_other(1)[OF b n] by simp
  show "ForTitle m \<notin> set (minorWarnings (messages s2))"
    using appends_other(2)[OF b n] by simp
  show "ForTitle m \<notin> set (goodPoints (messages s2))"
    using appends_other(3)[OF b n] by simp
qed

lemma constructor_TitleLengthGood:
  "ForTitle (TitleLengthGood n) \<in> set (goodPoints (messages (constructor c a strict))) \<longleftrightarrow>
     title c \<noteq> [] \<and> n = length (title c) \<and> 40 \<le> n \<and> n \<le> 70"
  by (simp add: constructor_title_messages title_rule_TitleLengthGood)

lemma constructor_TitleTooShort:
  "ForTitle TitleTooShort \<in> set (warnings (messages (constructor c a strict))) \<longleftrightarrow>
     title c \<noteq> [] \<and> length (title c) < 40"
  by (simp add: constructor_title_messages title_rule_TitleTooShort)

lemma constructor_TitleTooLong:
  "ForTitle TitleTooLong \<in> set (warnings (messages (constructor c a strict))) \<longleftrightarrow>
     title c \<noteq> [] \<and> 70 < length (title c)"
  by (simp add: constructor_title_messages title_rule_TitleTooLong)

lemma heading_rule_MissingHeadings:
  "ForHeadings MissingHeadings \<in> set (warnings (messages (assignMessagesForHeadings s))) \<longleftrightarrow>
     ForHeadings MissingHeadings \<in> set (warnings (messages s)) \<or> headings s = []"
  by (auto simp add: assignMessagesForHeadings_def Let_def)

lemma constructor_MissingHeadings:
  "ForHeadings MissingHeadings \<in> set (warnings (messages (constructor c a strict))) \<longleftrightarrow>
     headings (constructor c a strict) = []"
proof -
  have n: "ForHeadings MissingHeadings \<notin> - range ForHeadings" by simp
  note b = before_headings_appends[of "initialise c a strict"]
  show ?thesis
    unfolding constructor_def assignMessages_unfold heading_rule_MissingHeadings
      appends_other(1)[OF b n] appends_headings[OF b]
      appends_headings[OF assignMessagesForHeadings_appends]
    by simp
qed

section \<open>The claims\<close>

subsection \<open>C1: the overall score formula\<close>

text \<open>
  Claim C1. For every constructed object, \<open>getSeoScore\<close> returns
  \<open>min(100, goodPoints.length / (warnings.length + goodPoints.length) * 100)\<close>, and the
  minor warnings have no effect on it: two objects whose warnings lists have the same
  length and whose good-points lists have the same length have the same overall score,
  whatever their minor warnings are.
\<close>

theorem overall_score_formula:
  "getSeoScore (constructor c a strict) =
     Fin (overallScore_formula (length (warnings (messages (constructor c a strict))))
                               (length (goodPoints (messages (constructor c a strict)))))
   \<and> (length (warnings (messages s)) = length (warnings (messages s')) \<and>
      length (goodPoints (messages s)) = length (goodPoints (messages s'))
      \<longrightarrow> getSeoScore s = getSeoScore s')"
proof (intro conjI impI)
  show "getSeoScore (constructor c a strict) =
     Fin (overallScore_formula (length (warnings (messages (constructor c a strict))))
                               (length (goodPoints (messages (constructor c a strict)))))"
    by (rule getSeoScore_formula[OF constructor_nonempty])
next
  assume "length (warnings (messages s)) = length (warnings (messages s')) \<and>
      length (goodPoints (messages s)) = length (goodPoints (messages s'))"
  then show "getSeoScore s = getSeoScore s'"
    by (simp add: getSeoScore_def Let_def)
qed

theorem overall_score_formula_witness:
  "getSeoScore (constructor exampleContent exampleDocument True) = Fin (600 / 13) \<and>
   getSeoScore
     ((initialise exampleContent exampleDocument True)
        \<lparr>messages := \<lparr>warnings = [ForTitle TitleTooShort], minorWarnings = [],
                       goodPoints = [ForHeadings GoodH1]\<rparr>\<rparr>) =
   getSeoScore
     ((initialise exampleContent exampleDocument True)
        \<lparr>messages := \<lparr>warnings = [ForLinks (InternalLinksInsufficient 0)],
                       minorWarnings = [ForHeadings MissingH3],
                       goodPoints = [ForHeadings GoodH2]\<rparr>\<rparr>)"
proof -
  have e: "overallScore_formula
             (length (warnings (messages (constructor exampleContent exampleDocument True))))
             (length (goodPoints (messages (constructor exampleContent exampleDocument True))))
           = 600 / 13"
    by code_simp
  from overall_score_formula
         [of exampleContent exampleDocument True
             "(initialise exampleContent exampleDocument True)
                \<lparr>messages := \<lparr>warnings = [ForTitle TitleTooShort], minorWarnings = [],
                               goodPoints = [ForHeadings GoodH1]\<rparr>\<rparr>"
             "(initialise exampleContent exampleDocument True)
                \<lparr>messages := \<lparr>warnings = [ForLinks (InternalLinksInsufficient 0)],
                               minorWarnings = [ForHeadings MissingH3],
                               goodPoints = [ForHeadings GoodH2]\<rparr>\<rparr>"]
    e
  show ?thesis by simp
qed

subsection \<open>C2: division by zero\<close>

text \<open>
  Claim C2, as stated: with a word count of 0 the density computation, and with empty
  warnings and good-points lists the overall score computation, return a defined number
  such as 0 rather than not-a-number. The code has no such guard: for a text of zero
  words in which the keyword does not occur the density is not-a-number, and the overall
  score of an object without warnings and good points is not-a-number.
\<close>

theorem division_by_zero_counterexample:
  "getWordCount (plainDocument '''' [] [] []) (Some '''') = 0 \<and>
   calculateDensity exampleContent (plainDocument '''' [] [] []) (Some ''seo'') (Some '''') = NaN \<and>
   warnings (messages (initialise exampleContent exampleDocument True)) = [] \<and>
   goodPoints (messages (initialise exampleContent exampleDocument True)) = [] \<and>
   getSeoScore (initialise exampleContent exampleDocument True) = NaN"
  by (simp add: calculateDensity_def countOccurrencesInString_def plainDocument_def
        countWords_def js_split_def to_separator_def of_length_def getSeoScore_def
        initialise_def)

text \<open>
  Claim C2, amended. With a word count of 0 the density computation returns not-a-number
  when the occurrence count is 0 and positive infinity when the occurrence count is
  positive; with empty warnings and good-points lists the overall score computation
  returns not-a-number.
\<close>

theorem division_by_zero_results:
  "(getWordCount a (Some (case tx of None \<Rightarrow> bodyText a | Some t \<Rightarrow> t)) = 0 \<longrightarrow>
      (countOccurrencesInString c a kw (Some (case tx of None \<Rightarrow> bodyText a | Some t \<Rightarrow> t)) = 0
         \<longrightarrow> calculateDensity c a kw tx = NaN) \<and>
      (0 < countOccurrencesInString c a kw (Some (case tx of None \<Rightarrow> bodyText a | Some t \<Rightarrow> t))
         \<longrightarrow> calculateDensity c a kw tx = PosInf)) \<and>
   (warnings (messages s) = [] \<and> goodPoints (messages s) = [] \<longrightarrow> getSeoScore s = NaN)"
  by (simp add: calculateDensity_def getSeoScore_def of_length_def Let_def)

theorem division_by_zero_results_witness:
  "getWordCount (plainDocument '''' [] [] []) (Some '''') = 0 \<and>
   countOccurrencesInString exampleContent (plainDocument '''' [] [] [])
     (Some ''hello'') (Some '''') = 0 \<and>
   calculateDensity exampleContent (plainDocument '''' [] [] []) (Some ''hello'') (Some '''') = NaN \<and>
   getWordCount (plainDocument '''' [] [] []) (Some ''  '') = 0 \<and>
   countOccurrencesInString exampleContent (plainDocument '''' [] [] [])
     (Some '' '') (Some ''  '') = 2 \<and>
   calculateDensity exampleContent (plainDocument '''' [] [] []) (Some '' '') (Some ''  '') = PosInf \<and>
   warnings (messages (initialise exampleContent exampleDocument False)) = [] \<and>
   goodPoints (messages (initialise exampleContent exampleDocument False)) = [] \<and>
   getSeoScore (initialise exampleContent exampleDocument False) = NaN"
proof -
  have w: "getWordCount (plainDocument '''' [] [] []) (Some '''') = 0"
          "getWordCount (plainDocument '''' [] [] []) (Some ''  '') = 0"
    by (simp_all add: plainDocument_def countWords_def js_split_def)
  have o1: "countOccurrencesInString exampleContent (plainDocument '''' [] [] [])
              (Some ''hello'') (Some '''') = 0"
    by (simp add: countOccurrencesInString_def js_split_def to_separator_def)
  have o2: "countOccurrencesInString exampleContent (plainDocument '''' [] [] [])
              (Some '' '') (Some ''  '') = 2"
    by (simp add: countOccurrencesInString_def js_split_def to_separator_def)
  have m: "warnings (messages (initialise exampleContent exampleDocument False)) = []"
          "goodPoints (messages (initialise exampleContent exampleDocument False)) = []"
    by (simp_all add: initialise_def)
  from division_by_zero_results
         [where a = "plainDocument '''' [] [] []" and tx = "Some ''''" and c = exampleContent
            and kw = "Some ''hello''" and s = "initialise exampleContent exampleDocument False"]
       division_by_zero_results
         [where a = "plainDocument '''' [] [] []" and tx = "Some ''  ''" and c = exampleContent
            and kw = "Some '' ''" and s = "initialise exampleContent exampleDocument False"]
       w o1 o2 m
  show ?thesis by simp
qed

subsection \<open>C3: the range of the scores\<close>

text \<open>
  Claim C3, as stated: the overall score and the keyword score of every constructed object
  are in the closed interval from 0 to 100. The keyword score is not: it is not-a-number
  for a title of zero words in which the keyword does not occur, and it is negative when
  the empty keyword is counted in an empty text, where \<open>split\<close> returns no piece and the
  occurrence count is \<open>-1\<close>.
\<close>

theorem keyword_score_range_counterexample:
  "getKeywordSeoScore (constructor (exampleContent\<lparr>title := ''''\<rparr>) exampleDocument True) = NaN \<and>
   \<not> in_0_100
       (getKeywordSeoScore (constructor (exampleContent\<lparr>title := ''''\<rparr>) exampleDocument True)) \<and>
   getKeywordSeoScore (constructor emptyContent (spaceSplitDocument '''') True) = Fin (- 2000) \<and>
   \<not> in_0_100 (getKeywordSeoScore (constructor emptyContent (spaceSplitDocument '''') True))"
  by code_simp

text \<open>
  Claim C3, amended. For every constructed object the overall score is in the closed
  interval from 0 to 100. The keyword score never exceeds 100, however large the densities
  and the number of sub-keywords; it is in the closed interval from 0 to 100 whenever the
  analyzer counts at least one word in the body text and in the title and neither the
  primary keyword nor a sub-keyword is the empty string.
\<close>

theorem scores_in_range:
  "in_0_100 (getSeoScore (constructor c a strict)) \<and>
   \<not> js_gt (getKeywordSeoScore (constructor c a strict)) (Fin 100) \<and>
   (0 < getWordCount a (Some (bodyText a)) \<and> 0 < getWordCount a (Some (title c)) \<and>
    keyword c \<noteq> Some [] \<and> [] \<notin> set (subKeywords c)
    \<longrightarrow> in_0_100 (getKeywordSeoScore (constructor c a strict)))"
  using getSeoScore_in_range getKeywordSeoScore_not_above getKeywordSeoScore_in_range
  by blast

theorem scores_in_range_witness:
  "0 < getWordCount exampleDocument (Some (bodyText exampleDocument)) \<and>
   0 < getWordCount exampleDocument (Some (title exampleContent)) \<and>
   keyword exampleContent \<noteq> Some [] \<and> [] \<notin> set (subKeywords exampleContent) \<and>
   in_0_100 (getSeoScore (constructor exampleContent exampleDocument False)) \<and>
   in_0_100 (getKeywordSeoScore (constructor exampleContent exampleDocument False))"
proof -
  have h: "0 < getWordCount exampleDocument (Some (bodyText exampleDocument)) \<and>
           0 < getWordCount exampleDocument (Some (title exampleContent)) \<and>
           keyword exampleContent \<noteq> Some [] \<and> [] \<notin> set (subKeywords exampleContent)"
    by (simp add: exampleDocument_def exampleContent_def plainDocument_def countWords_def
          js_split_def)
  with scores_in_range[of exampleContent exampleDocument False] show ?thesis by blast
qed

subsection \<open>C4: counting with an empty or absent keyword\<close>

text \<open>
  Claim C4: counting the occurrences of the empty keyword returns 0, without splitting on
  the empty separator, and an absent primary keyword counts as 0 occurrences. The code
  splits in both cases. With the empty keyword it returns the length of the text minus
  one, which is 1 for the text \<open>ab\<close> and \<open>-1\<close> for the empty text; with a \<open>null\<close>
  keyword it counts the occurrences of the word \<open>null\<close>, 1 in the text \<open>null and void\<close>.
\<close>

theorem empty_keyword_occurrences:
  "countOccurrencesInString c a (Some '''') (Some t) = int (length t) - 1 \<and>
   countOccurrencesInString c a (Some '''') (Some ''ab'') = 1 \<and>
   countOccurrencesInString c a (Some '''') (Some '''') = - 1 \<and>
   countOccurrencesInString (c\<lparr>keyword := None\<rparr>) a None (Some ''null and void'') = 1"
  by (simp add: countOccurrencesInString_def js_split_def to_separator_def)

subsection \<open>C5: sub-keywords in the title\<close>

text \<open>
  Claim C5: for a non-empty title the title rules append the good point with the count
  exactly when a sub-keyword is found in the title, and the minor warning otherwise. The
  code tests the number of sub-keywords of the content, not the number found: for the
  title \<open>hello world\<close> and the single sub-keyword \<open>xyz\<close>, which does not occur in it, the
  good point with count 1 is appended and the minor warning is not.
\<close>

theorem sub_keywords_in_title_not_found:
  "title exampleContent = ''hello world'' \<and> subKeywords exampleContent = [''xyz''] \<and>
   countOccurrencesInString exampleContent exampleDocument (Some ''xyz'')
     (Some (title exampleContent)) = 0 \<and>
   map density (getSubKeywordsInTitle exampleContent exampleDocument) = [Fin 0] \<and>
   ForTitle (SubKeywordsInTitle 1)
     \<in> set (goodPoints (messages (constructor exampleContent exampleDocument False))) \<and>
   ForTitle NoSubKeywordsInTitle
     \<notin> set (minorWarnings (messages (constructor exampleContent exampleDocument False)))"
  by code_simp

subsection \<open>C6: the position of a keyword\<close>

text \<open>
  Claim C6. \<open>getPosition\<close> returns \<open>-1\<close> when the text or the keyword is empty (or the
  keyword is \<open>null\<close>). Otherwise it returns the number of pieces that the spaces cut the
  text before the first occurrence of the keyword into, which is one more than the number
  of spaces in it; \<open>before_first k t\<close> is that text, the \<open>p\<close> of the decomposition
  \<open>t = p @ k @ r\<close> with the shortest \<open>p\<close>. So \<open>getPosition\<close> of \<open>seo is great\<close> and
  \<open>seo\<close> is 1, and of \<open>great seo content\<close> and \<open>seo\<close> it is 2.
\<close>

theorem getPosition_words_before_keyword:
  "getPosition [] kw = - 1 \<and> getPosition t None = - 1 \<and> getPosition t (Some []) = - 1 \<and>
   (t \<noteq> [] \<and> k \<noteq> [] \<longrightarrow>
      getPosition t (Some k) = int (length (js_split (before_first k t) '' '')) \<and>
      getPosition t (Some k) = 1 + int (count_list (before_first k t) CHR '' '')) \<and>
   (k \<noteq> [] \<and> t = p @ k @ r \<and> (\<forall>p' r'. t = p' @ k @ r' \<longrightarrow> length p \<le> length p')
      \<longrightarrow> before_first k t = p) \<and>
   getPosition ''seo is great'' (Some ''seo'') = 1 \<and>
   getPosition ''great seo content'' (Some ''seo'') = 2"
proof (intro conjI impI)
  show "getPosition [] kw = - 1" "getPosition t None = - 1" "getPosition t (Some []) = - 1"
    by (simp_all add: getPosition_def truthy_def)
next
  assume h: "t \<noteq> [] \<and> k \<noteq> []"
  then show "getPosition t (Some k) = int (length (js_split (before_first k t) '' ''))"
    by (simp add: getPosition_def truthy_def to_separator_def hd_js_split)
  then show "getPosition t (Some k) = 1 + int (count_list (before_first k t) CHR '' '')"
    by (simp add: length_split_space)
next
  assume "k \<noteq> [] \<and> t = p @ k @ r \<and> (\<forall>p' r'. t = p' @ k @ r' \<longrightarrow> length p \<le> length p')"
  then show "before_first k t = p" using before_first_decomp by blast
next
  show "getPosition ''seo is great'' (Some ''seo'') = 1"
    by (simp add: getPosition_def js_split_def truthy_def to_separator_def)
  show "getPosition ''great seo content'' (Some ''seo'') = 2"
    by (simp add: getPosition_def js_split_def truthy_def to_separator_def)
qed

theorem getPosition_words_before_keyword_witness:
  "''seo is great'' \<noteq> [] \<and> ''seo'' \<noteq> [] \<and>
   ''seo is great'' = [] @ ''seo'' @ '' is great'' \<and>
   getPosition ''seo is great'' (Some ''seo'') =
     1 + int (count_list (before_first ''seo'' ''seo is great'') CHR '' '') \<and>
   before_first ''seo'' ''seo is great'' = []"
  using getPosition_words_before_keyword
          [of None "''seo is great''" "''seo''" "[]" "'' is great''"]
  by simp

subsection \<open>C7: the synthetic heading\<close>

text \<open>
  Claim C7. Without strict mode the constructor appends the heading with tag \<open>H1\<close> and
  the title as text to the headings of the analyzer, once, whatever the analyzer returned,
  so the missing-heading warning is never given. In strict mode the headings are those of
  the analyzer, and when the analyzer returns none the warnings contain the
  missing-heading warning.
\<close>

theorem synthetic_heading:
  "headings (constructor c a False) =
     getAllHeadingTags a @ [\<lparr>tag = ''H1'', heading_text = title c\<rparr>] \<and>
   ForHeadings MissingHeadings \<notin> set (warnings (messages (constructor c a False))) \<and>
   headings (constructor c a True) = getAllHeadingTags a \<and>
   (getAllHeadingTags a = [] \<longrightarrow>
      ForHeadings MissingHeadings \<in> set (warnings (messages (constructor c a True))))"
  by (simp add: constructor_MissingHeadings constructor_fields)

theorem synthetic_heading_witness:
  "getAllHeadingTags exampleDocument = [] \<and>
   headings (constructor exampleContent exampleDocument False) =
     [\<lparr>tag = ''H1'', heading_text = ''hello world''\<rparr>] \<and>
   headings (constructor exampleContent exampleDocument True) = [] \<and>
   ForHeadings MissingHeadings
     \<in> set (warnings (messages (constructor exampleContent exampleDocument True)))"
proof -
  have h: "getAllHeadingTags exampleDocument = []"
    by (simp add: exampleDocument_def plainDocument_def)
  have t: "title exampleContent = ''hello world''"
    by (simp add: exampleContent_def)
  from synthetic_heading[of exampleContent exampleDocument] h t show ?thesis by simp
qed

subsection \<open>C8: the bounds of the title length\<close>

text \<open>
  Claim C8. The range of good title lengths includes both ends: a title of 40 characters
  and one of 70 characters give the good point that reports the length and neither
  length warning; a title of 39 characters gives the too-short warning and one of 71
  characters the too-long warning, and neither gives the good point.
\<close>

theorem title_length_boundaries:
  "(length (title c) = 40 \<or> length (title c) = 70 \<longrightarrow>
      ForTitle (TitleLengthGood (length (title c)))
        \<in> set (goodPoints (messages (constructor c a strict))) \<and>
      ForTitle TitleTooShort \<notin> set (warnings (messages (constructor c a strict))) \<and>
      ForTitle TitleTooLong \<notin> set (warnings (messages (constructor c a strict)))) \<and>
   (length (title c) = 39 \<longrightarrow>
      ForTitle TitleTooShort \<in> set (warnings (messages (constructor c a strict))) \<and>
      ForTitle TitleTooLong \<notin> set (warnings (messages (constructor c a strict))) \<and>
      (\<forall>n. ForTitle (TitleLengthGood n)
             \<notin> set (goodPoints (messages (constructor c a strict))))) \<and>
   (length (title c) = 71 \<longrightarrow>
      ForTitle TitleTooLong \<in> set (warnings (messages (constructor c a strict))) \<and>
      ForTitle TitleTooShort \<notin> set (warnings (messages (constructor c a strict))) \<and>
      (\<forall>n. ForTitle (TitleLengthGood n)
             \<notin> set (goodPoints (messages (constructor c a strict)))))"
  unfolding constructor_TitleLengthGood constructor_TitleTooShort constructor_TitleTooLong
  by auto

theorem title_length_boundaries_witness:
  "ForTitle (TitleLengthGood 40)
     \<in> set (goodPoints (messages
          (constructor (exampleContent\<lparr>title := replicate 40 CHR ''a''\<rparr>) exampleDocument False))) \<and>
   ForTitle (TitleLengthGood 70)
     \<in> set (goodPoints (messages
          (constructor (exampleContent\<lparr>title := replicate 70 CHR ''a''\<rparr>) exampleDocument False))) \<and>
   ForTitle TitleTooShort
     \<in> set (warnings (messages
          (constructor (exampleContent\<lparr>title := replicate 39 CHR ''a''\<rparr>) exampleDocument False))) \<and>
   ForTitle TitleTooLong
     \<in> set (warnings (messages
          (constructor (exampleContent\<lparr>title := replicate 71 CHR ''a''\<rparr>) exampleDocument False)))"
  using title_length_boundaries
          [of "exampleContent\<lparr>title := replicate 40 CHR ''a''\<rparr>" exampleDocument False]
        title_length_boundaries
          [of "exampleContent\<lparr>title := replicate 70 CHR ''a''\<rparr>" exampleDocument False]
        title_length_boundaries
          [of "exampleContent\<lparr>title := replicate 39 CHR ''a''\<rparr>" exampleDocument False]
        title_length_boundaries
          [of "exampleContent\<lparr>title := replicate 71 CHR ''a''\<rparr>" exampleDocument False]
  by simp

subsection \<open>C9: the link rules\<close>

text \<open>
  Claim C9. With the word count of the whole document, the link rules append to the
  warnings the internal-links warning with the count when the unique internal links are
  fewer than the word count divided by 300, and then the external-links warning when the
  unique outbound links are fewer than the word count divided by 400, and nothing else.
  To the good points they append the internal-links good point when the internal links
  are not too few, and then only the two messages about duplicate links: no good point
  depends on the number of unique outbound links.
\<close>

theorem link_rules:
  "let a = htmlAnalyzer s;
       wordCount = getWordCount a None;
       internal = totalUniqueInternalLinksCount a;
       outbound = totalUniqueExternalLinksCount a;
       s' = assignMessagesForLinks s
   in warnings (messages s') =
        warnings (messages s)
        @ (if (of_nat internal :: rat) < of_nat wordCount / 300
           then [ForLinks (InternalLinksInsufficient internal)] else [])
        @ (if (of_nat outbound :: rat) < of_nat wordCount / 400
           then [ForLinks (ExternalLinksInsufficient outbound)] else [])
    \<and> goodPoints (messages s') =
        goodPoints (messages s)
        @ (if (of_nat internal :: rat) < of_nat wordCount / 300
           then [] else [ForLinks (InternalLinksGood internal)])
        @ (if length (duplicate (getInternalLinks a)) > 1
           then [] else [ForLinks NoDuplicateInternalLinks])
        @ (if length (duplicate (getOutboundLinks a)) > 1
           then [] else [ForLinks NoDuplicateExternalLinks])"
  by (simp add: assignMessagesForLinks_def Let_def of_length_def)

theorem link_rules_witness:
  "warnings (messages (assignMessagesForLinks
      (initialise exampleContent (plainDocument ''hello big world'' [] [''/about''] []) True))) =
     [ForLinks (ExternalLinksInsufficient 0)] \<and>
   goodPoints (messages (assignMessagesForLinks
      (initialise exampleContent (plainDocument ''hello big world'' [] [''/about''] []) True))) =
     [ForLinks (InternalLinksGood 1), ForLinks NoDuplicateInternalLinks,
      ForLinks NoDuplicateExternalLinks] \<and>
   warnings (messages (assignMessagesForLinks
      (initialise exampleContent (plainDocument ''hello big world'' [] [] [''http://x.org'']) True))) =
     [ForLinks (InternalLinksInsufficient 0)] \<and>
   goodPoints (messages (assignMessagesForLinks
      (initialise exampleContent (plainDocument ''hello big world'' [] [] [''http://x.org'']) True))) =
     [ForLinks NoDuplicateInternalLinks, ForLinks NoDuplicateExternalLinks]"
  using link_rules
          [of "initialise exampleContent (plainDocument ''hello big world'' [] [''/about''] []) True"]
        link_rules
          [of "initialise exampleContent (plainDocument ''hello big world'' [] [] [''http://x.org'']) True"]
  by (simp add: Let_def plainDocument_def countWords_def js_split_def
        totalUniqueInternalLinksCount_def totalUniqueExternalLinksCount_def)

subsection \<open>C10: the denominator of the overall score\<close>

text \<open>
  Claim C10. The keyword rule pushes the good point for the keyword when the content has
  one, and the missing-keyword warning when it has none, and no rule removes a message.
  So after construction the warnings and the good points together hold at least one
  message, the denominator of the overall score is not zero, and the overall score of a
  constructed object is never the not-a-number of a division of zero by zero.
\<close>

theorem denominator_nonzero:
  "(\<forall>k. keyword c = Some k \<and> k \<noteq> [] \<longrightarrow>
        ForKeyword (KeywordPresent k) \<in> set (goodPoints (messages (constructor c a strict))))
   \<and> (\<not> truthy (keyword c) \<longrightarrow>
        ForKeyword MissingKeyword \<in> set (warnings (messages (constructor c a strict))))
   \<and> 1 \<le> length (warnings (messages (constructor c a strict)))
         + length (goodPoints (messages (constructor c a strict)))
   \<and> js_add (of_length (length (warnings (messages (constructor c a strict)))))
             (of_length (length (goodPoints (messages (constructor c a strict))))) \<noteq> Fin 0
   \<and> getSeoScore (constructor c a strict) \<noteq> NaN"
proof (intro conjI allI impI)
  fix k assume "keyword c = Some k \<and> k \<noteq> []"
  then show "ForKeyword (KeywordPresent k)
               \<in> set (goodPoints (messages (constructor c a strict)))"
    unfolding constructor_def
    by (intro appends_member(3)[OF after_keyword_appends] keyword_rule_KeywordPresent) simp_all
next
  assume "\<not> truthy (keyword c)"
  then show "ForKeyword MissingKeyword \<in> set (warnings (messages (constructor c a strict)))"
    unfolding constructor_def
    by (intro appends_member(1)[OF after_keyword_appends] keyword_rule_MissingKeyword) simp
next
  show "1 \<le> length (warnings (messages (constructor c a strict)))
       + length (goodPoints (messages (constructor c a strict)))"
    by (rule constructor_nonempty)
  show "js_add (of_length (length (warnings (messages (constructor c a strict)))))
             (of_length (length (goodPoints (messages (constructor c a strict))))) \<noteq> Fin 0"
    using lengths_sum_nonzero[OF constructor_nonempty[of c a strict]]
    by (simp add: of_length_def)
  show "getSeoScore (constructor c a strict) \<noteq> NaN"
    by (simp add: getSeoScore_formula[OF constructor_nonempty])
qed

theorem denominator_nonzero_witness:
  "keyword exampleContent = Some ''hello'' \<and>
   ForKeyword (KeywordPresent ''hello'')
     \<in> set (goodPoints (messages (constructor exampleContent exampleDocument True))) \<and>
   \<not> truthy (keyword (exampleContent\<lparr>keyword := None\<rparr>)) \<and>
   ForKeyword MissingKeyword
     \<in> set (warnings (messages (constructor (exampleContent\<lparr>keyword := None\<rparr>)
                                   exampleDocument True))) \<and>
   getSeoScore (constructor (exampleContent\<lparr>keyword := None\<rparr>) exampleDocument True) \<noteq> NaN"
proof -
  have k: "keyword exampleContent = Some ''hello''"
    by (simp add: exampleContent_def)
  have n: "\<not> truthy (keyword (exampleContent\<lparr>keyword := None\<rparr>))"
    by (simp add: truthy_def)
  from denominator_nonzero[of exampleContent exampleDocument True]
       denominator_nonzero[of "exampleContent\<lparr>keyword := None\<rparr>" exampleDocument True]
       k n
  show ?thesis by simp
qed

end
